theory Spec2Isabelle
  imports Complex_Main "HOL-Library.AList" "HOL-Library.Multiset"
begin

section \<open>Strings and character classes\<close>

text \<open>
  Python strings are sequences of code points; a \<^typ>\<open>char\<close> stands for one code point
  below 256.  The character classes are those of Python 3 on that range:
  \<^verbatim>\<open>str.isspace\<close> (also used by \<^verbatim>\<open>str.strip\<close>, \<^verbatim>\<open>str.split\<close> and the regex class
  \<^verbatim>\<open>\s\<close>), the regex class \<^verbatim>\<open>\d\<close> and the regex class \<^verbatim>\<open>\w\<close>.
\<close>

definition code_point :: "char \<Rightarrow> nat" where
  "code_point c = of_char c"

definition is_space :: "char \<Rightarrow> bool" where
  "is_space c = (code_point c \<in> set [9, 10, 11, 12, 13, 28, 29, 30, 31, 32, 133, 160])"

definition is_digit :: "char \<Rightarrow> bool" where
  "is_digit c = (48 \<le> code_point c \<and> code_point c \<le> 57)"

definition is_word :: "char \<Rightarrow> bool" where
  "is_word c = (let n = code_point c in
     (48 \<le> n \<and> n \<le> 57) \<or> (65 \<le> n \<and> n \<le> 90) \<or> (97 \<le> n \<and> n \<le> 122) \<or> n = 95 \<or>
     n \<in> set [170, 178, 179, 181, 185, 186, 188, 189, 190] \<or>
     (192 \<le> n \<and> n \<le> 214) \<or> (216 \<le> n \<and> n \<le> 246) \<or> 248 \<le> n)"

text \<open>\<^verbatim>\<open>sub in s\<close> for strings: \<open>sub\<close> occurs in \<open>s\<close> as a contiguous substring.\<close>

definition starts_with :: "string \<Rightarrow> string \<Rightarrow> bool" where
  "starts_with s pre = (take (length pre) s = pre)"

fun contains :: "string \<Rightarrow> string \<Rightarrow> bool" where
  "contains [] sub = (sub = [])"
| "contains (c # cs) sub = (starts_with (c # cs) sub \<or> contains cs sub)"

text \<open>\<^verbatim>\<open>s.strip()\<close> and \<^verbatim>\<open>s.split()\<close> (no argument: runs of whitespace separate, no empty
  pieces).\<close>

definition strip :: "string \<Rightarrow> string" where
  "strip s = rev (dropWhile is_space (rev (dropWhile is_space s)))"

function split_ws :: "string \<Rightarrow> string list" where
  "split_ws [] = []"
| "split_ws (c # cs) =
     (if is_space c then split_ws cs
      else takeWhile (\<lambda>x. \<not> is_space x) (c # cs) # split_ws (dropWhile (\<lambda>x. \<not> is_space x) cs))"
  by pat_completeness auto
termination
  by (relation "measure length") (auto simp: less_Suc_eq_le length_dropWhile_le)

text \<open>A string between double quotes.\<close>

definition quoted :: "string \<Rightarrow> string" where
  "quoted s = [CHR 0x22] @ s @ [CHR 0x22]"

section \<open>Python numbers\<close>

text \<open>
  A Python \<^verbatim>\<open>float\<close> is an IEEE 754 binary64 value: a finite value is kept as the
  rational number it denotes, beside the two infinities and NaN.  The sign of zero is
  not kept: no operation used below tells the two zeros apart.  Every arithmetic
  result is the exact rational result rounded to the nearest binary64 value, ties to
  the even significand (\<open>round_double\<close>).
\<close>

datatype pyfloat = Fin rat | PInf | NInf | NaN

datatype py_error =
  ValueError | TypeError | OverflowError | ZeroDivisionError | RecursionError
  | JSONDecodeError | ReError | OtherError

definition pow2 :: "int \<Rightarrow> rat" where
  "pow2 k = (if 0 \<le> k then 2 ^ nat k else 1 / 2 ^ nat (- k))"

definition pow10 :: "int \<Rightarrow> rat" where
  "pow10 k = (if 0 \<le> k then 10 ^ nat k else 1 / 10 ^ nat (- k))"

text \<open>The number of binary digits of a positive integer, and \<open>\<lfloor>log\<^sub>2 q\<rfloor>\<close> for a positive
  rational \<open>q\<close>.\<close>

function bit_length :: "int \<Rightarrow> int" where
  "bit_length n = (if n \<le> 0 then 0 else 1 + bit_length (n div 2))"
  by pat_completeness auto
termination
  by (relation "measure nat") auto

declare bit_length.simps [simp del]

definition ilog2 :: "rat \<Rightarrow> int" where
  "ilog2 q = (if 1 \<le> q then bit_length \<lfloor>q\<rfloor> - 1 else - bit_length (\<lceil>1 / q\<rceil> - 1))"

definition round_half_even :: "rat \<Rightarrow> int" where
  "round_half_even q =
     (let f = \<lfloor>q\<rfloor>; r = q - of_int f in
      if r < 1 / 2 then f else if 1 / 2 < r then f + 1 else if even f then f else f + 1)"

definition round_double :: "rat \<Rightarrow> pyfloat" where
  "round_double q =
     (if q = 0 then Fin 0
      else (let a = \<bar>q\<bar>;
                e = max (ilog2 a) (- 1022);
                ulp = pow2 (e - 52);
                r = of_int (round_half_even (a / ulp)) * ulp
            in if pow2 1024 \<le> r then (if 0 < q then PInf else NInf)
               else Fin (if 0 < q then r else - r)))"

text \<open>Float negation, comparison, subtraction, multiplication, division (which raises
  \<^verbatim>\<open>ZeroDivisionError\<close> on a zero divisor, whatever the dividend) and the built-in
  \<^verbatim>\<open>round\<close> with one argument.\<close>

fun f_neg :: "pyfloat \<Rightarrow> pyfloat" where
  "f_neg (Fin q) = Fin (- q)"
| "f_neg PInf = NInf"
| "f_neg NInf = PInf"
| "f_neg NaN = NaN"

fun f_gt :: "pyfloat \<Rightarrow> pyfloat \<Rightarrow> bool" where
  "f_gt NaN _ = False"
| "f_gt _ NaN = False"
| "f_gt (Fin a) (Fin b) = (b < a)"
| "f_gt PInf PInf = False"
| "f_gt PInf _ = True"
| "f_gt NInf _ = False"
| "f_gt (Fin a) PInf = False"
| "f_gt (Fin a) NInf = True"

fun f_sub :: "pyfloat \<Rightarrow> pyfloat \<Rightarrow> pyfloat" where
  "f_sub NaN _ = NaN"
| "f_sub _ NaN = NaN"
| "f_sub (Fin a) (Fin b) = round_double (a - b)"
| "f_sub PInf PInf = NaN"
| "f_sub NInf NInf = NaN"
| "f_sub PInf _ = PInf"
| "f_sub NInf _ = NInf"
| "f_sub (Fin a) PInf = NInf"
| "f_sub (Fin a) NInf = PInf"

definition f_sign :: "pyfloat \<Rightarrow> int" where
  "f_sign x = (case x of Fin q \<Rightarrow> sgn \<lfloor>q\<rfloor> + (if q \<noteq> 0 \<and> \<lfloor>q\<rfloor> = 0 then 1 else 0)
               | PInf \<Rightarrow> 1 | NInf \<Rightarrow> - 1 | NaN \<Rightarrow> 0)"

definition f_inf :: "int \<Rightarrow> pyfloat" where
  "f_inf s = (if 0 < s then PInf else if s < 0 then NInf else NaN)"

fun f_mul :: "pyfloat \<Rightarrow> pyfloat \<Rightarrow> pyfloat" where
  "f_mul NaN _ = NaN"
| "f_mul _ NaN = NaN"
| "f_mul (Fin a) (Fin b) = round_double (a * b)"
| "f_mul x y = f_inf (f_sign x * f_sign y)"

fun f_div :: "pyfloat \<Rightarrow> pyfloat \<Rightarrow> py_error + pyfloat" where
  "f_div x (Fin b) =
     (if b = 0 then Inl ZeroDivisionError
      else (case x of Fin a \<Rightarrow> Inr (round_double (a / b))
            | NaN \<Rightarrow> Inr NaN
            | _ \<Rightarrow> Inr (f_inf (f_sign x * f_sign (Fin b)))))"
| "f_div x NaN = Inr NaN"
| "f_div (Fin a) _ = Inr (Fin 0)"
| "f_div _ _ = Inr NaN"

fun py_round :: "pyfloat \<Rightarrow> py_error + int" where
  "py_round (Fin q) = Inr (round_half_even q)"
| "py_round NaN = Inl ValueError"
| "py_round _ = Inl OverflowError"

text \<open>
  \<^verbatim>\<open>float(s)\<close> and \<^verbatim>\<open>int(s)\<close> for a string \<open>s\<close>.  Both strip the whitespace
  characters 9 to 13, 32, 133 and 160 from the two ends, accept single underscores
  between digits, and one sign.  \<^verbatim>\<open>float\<close> then reads \<^verbatim>\<open>inf\<close>, \<^verbatim>\<open>infinity\<close> or
  \<^verbatim>\<open>nan\<close> in any case, or a decimal numeral with an optional fraction and exponent, and
  rounds its value; \<^verbatim>\<open>int\<close> reads decimal digits.  \<open>None\<close> stands for \<^verbatim>\<open>ValueError\<close>.
  (The limit that CPython 3.11 puts on the number of digits \<^verbatim>\<open>int\<close> reads is not
  modelled.)
\<close>

definition is_num_space :: "char \<Rightarrow> bool" where
  "is_num_space c = (code_point c \<in> set [9, 10, 11, 12, 13, 32, 133, 160])"

definition strip_num :: "string \<Rightarrow> string" where
  "strip_num s = rev (dropWhile is_num_space (rev (dropWhile is_num_space s)))"

fun strip_underscores :: "char option \<Rightarrow> string \<Rightarrow> string option" where
  "strip_underscores prev [] = (if prev = Some CHR ''_'' then None else Some [])"
| "strip_underscores prev (c # cs) =
     (if c = CHR ''_'' then
        (case prev of None \<Rightarrow> None
         | Some p \<Rightarrow> if is_digit p then strip_underscores (Some c) cs else None)
      else if prev = Some CHR ''_'' \<and> \<not> is_digit c then None
      else map_option ((#) c) (strip_underscores (Some c) cs))"

definition split_sign :: "string \<Rightarrow> bool \<times> string" where
  "split_sign s =
     (case s of [] \<Rightarrow> (False, [])
      | c # cs \<Rightarrow> if c = CHR ''-'' then (True, cs) else if c = CHR ''+'' then (False, cs) else (False, s))"

definition lower :: "char \<Rightarrow> char" where
  "lower c = (if 65 \<le> code_point c \<and> code_point c \<le> 90 then char_of (code_point c + 32) else c)"

definition digits_val :: "string \<Rightarrow> int" where
  "digits_val ds = foldl (\<lambda>a c. 10 * a + (int (code_point c) - 48)) 0 ds"

definition parse_exponent :: "string \<Rightarrow> int option" where
  "parse_exponent s =
     (let (neg, ds) = split_sign s in
      if ds \<noteq> [] \<and> list_all is_digit ds
      then Some (if neg then - digits_val ds else digits_val ds)
      else None)"

definition parse_unsigned_float :: "string \<Rightarrow> pyfloat option" where
  "parse_unsigned_float s =
     (let l = map lower s in
      if l = ''inf'' \<or> l = ''infinity'' then Some PInf
      else if l = ''nan'' then Some NaN
      else (let ip = takeWhile is_digit s;
                r1 = dropWhile is_digit s;
                has_dot = starts_with r1 ''.'';
                fp = (if has_dot then takeWhile is_digit (tl r1) else []);
                r2 = (if has_dot then dropWhile is_digit (tl r1) else r1);
                m = of_int (digits_val (ip @ fp)) :: rat
            in if ip = [] \<and> fp = [] then None
               else (case r2 of
                       [] \<Rightarrow> Some (round_double (m * pow10 (- int (length fp))))
                     | c # r3 \<Rightarrow>
                         if lower c = CHR ''e'' then
                           (case parse_exponent r3 of
                              None \<Rightarrow> None
                            | Some ex \<Rightarrow> Some (round_double (m * pow10 (ex - int (length fp)))))
                         else None)))"

definition float_of_string :: "string \<Rightarrow> pyfloat option" where
  "float_of_string s =
     (case strip_underscores None (strip_num s) of
        None \<Rightarrow> None
      | Some t \<Rightarrow> (let (neg, u) = split_sign t in
                   map_option (if neg then f_neg else id) (parse_unsigned_float u)))"

definition int_of_string :: "string \<Rightarrow> int option" where
  "int_of_string s =
     (case strip_underscores None (strip_num s) of
        None \<Rightarrow> None
      | Some t \<Rightarrow> parse_exponent t)"

section \<open>Term parser (\<^verbatim>\<open>parse_search_terms\<close>)\<close>

text \<open>
  \<^verbatim>\<open>re.sub(r'(\d+EA)', r'\1 ', s)\<close>: scanning from the left, a maximal run of digits that
  is directly followed by \<^verbatim>\<open>EA\<close> is copied with one space appended and the scan resumes
  after the match; any other character is copied and the scan moves one position on.
  (A shorter run of digits cannot match, since the character after it is a digit.)
\<close>

function ea_sub :: "string \<Rightarrow> string" where
  "ea_sub [] = []"
| "ea_sub (c # cs) =
     (let ds = takeWhile is_digit (c # cs); rest = dropWhile is_digit (c # cs) in
      if ds \<noteq> [] \<and> starts_with rest ''EA''
      then ds @ ''EA'' @ '' '' @ ea_sub (drop 2 rest)
      else c # ea_sub cs)"
  by pat_completeness auto
termination
proof (relation "measure length")
  fix c :: char and cs ds rest :: string
  assume "rest = dropWhile is_digit (c # cs)" and "ds \<noteq> [] \<and> starts_with rest ''EA''"
  have "length (dropWhile is_digit (c # cs)) \<le> length (c # cs)"
    by (rule length_dropWhile_le)
  moreover have "2 \<le> length rest"
    using \<open>ds \<noteq> [] \<and> starts_with rest ''EA''\<close>
    by (cases rest; cases "tl rest") (auto simp: starts_with_def)
  ultimately show "(drop 2 rest, c # cs) \<in> measure length"
    using \<open>rest = dropWhile is_digit (c # cs)\<close> by simp
qed auto

text \<open>\<^verbatim>\<open>re.split(r'[,\n]', s)\<close>: one piece more than there are separators.\<close>

definition is_sep :: "char \<Rightarrow> bool" where
  "is_sep c = (c = CHR '','' \<or> c = CHR 0x0A)"

fun re_split :: "string \<Rightarrow> string list" where
  "re_split [] = [[]]"
| "re_split (c # cs) =
     (if is_sep c then [] # re_split cs
      else (case re_split cs of [] \<Rightarrow> [[c]] | w # ws \<Rightarrow> (c # w) # ws))"

text \<open>
  \<^verbatim>\<open>re.findall(r'\b\d+EA\b', s)\<close>.  \<open>prev\<close> is the character before the scan position
  (\<open>None\<close> at the start of the string).  \<^verbatim>\<open>\b\<close> holds between two positions exactly
  when one side is a word character and the other is not (the outside of the string
  counts as a non-word character).
\<close>

definition word_boundary :: "char option \<Rightarrow> char option \<Rightarrow> bool" where
  "word_boundary l r =
     ((case l of None \<Rightarrow> False | Some a \<Rightarrow> is_word a) \<noteq> (case r of None \<Rightarrow> False | Some b \<Rightarrow> is_word b))"

definition first_char :: "string \<Rightarrow> char option" where
  "first_char s = (case s of [] \<Rightarrow> None | c # _ \<Rightarrow> Some c)"

function findall_ea :: "char option \<Rightarrow> string \<Rightarrow> string list" where
  "findall_ea prev [] = []"
| "findall_ea prev (c # cs) =
     (let ds = takeWhile is_digit (c # cs); rest = dropWhile is_digit (c # cs) in
      if word_boundary prev (Some c) \<and> ds \<noteq> [] \<and> starts_with rest ''EA'' \<and>
         word_boundary (Some CHR ''A'') (first_char (drop 2 rest))
      then (ds @ ''EA'') # findall_ea (Some CHR ''A'') (drop 2 rest)
      else findall_ea (Some c) cs)"
  by pat_completeness auto
termination
proof (relation "measure (\<lambda>(p, s). length s)")
  fix prev :: "char option" and c :: char and cs ds rest :: string
  assume r: "rest = dropWhile is_digit (c # cs)"
    and m: "word_boundary prev (Some c) \<and> ds \<noteq> [] \<and> starts_with rest ''EA'' \<and>
         word_boundary (Some CHR ''A'') (first_char (drop 2 rest))"
  have "length (dropWhile is_digit (c # cs)) \<le> length (c # cs)"
    by (rule length_dropWhile_le)
  moreover have "2 \<le> length rest"
    using m by (cases rest; cases "tl rest") (auto simp: starts_with_def)
  ultimately show "((Some CHR ''A'', drop 2 rest), (prev, c # cs)) \<in> measure (\<lambda>(p, s). length s)"
    using r by simp
qed auto

text \<open>
  The splitting policy of \<^verbatim>\<open>parse_search_terms\<close>: the input after the optional
  \<^verbatim>\<open>re.sub\<close>, the list \<^verbatim>\<open>terms\<close> before line 383 (\<open>raw_split\<close>), and the flag
  \<^verbatim>\<open>contains_ea_codes\<close>.
\<close>

definition spaced_input :: "string \<Rightarrow> string" where
  "spaced_input s = (if contains s ''EA'' then ea_sub s else s)"

definition raw_split :: "string \<Rightarrow> string list" where
  "raw_split search_input =
     (let s = spaced_input search_input in
      if contains s '','' \<or> contains s [CHR 0x0A] then re_split s
      else (let ea_codes = findall_ea None s in
            if ea_codes \<noteq> [] then ea_codes
            else if length s > 50 \<and> contains s '' '' then split_ws s
            else [s]))"

definition contains_ea_codes :: "string \<Rightarrow> bool" where
  "contains_ea_codes search_input =
     (let s = spaced_input search_input in
      contains search_input ''EA'' \<or>
      (\<not> (contains s '','' \<or> contains s [CHR 0x0A]) \<and> findall_ea None s \<noteq> []))"

text \<open>Line 383: \<^verbatim>\<open>[term.strip() for term in terms if term.strip()]\<close>.\<close>

definition candidates :: "string \<Rightarrow> string list" where
  "candidates search_input = filter (\<lambda>t. t \<noteq> []) (map strip (raw_split search_input))"

text \<open>The deduplication loop, with the set \<^verbatim>\<open>seen\<close> and the two output lists as
  accumulators.\<close>

fun dedup_loop :: "string list \<Rightarrow> string set \<Rightarrow> string list \<Rightarrow> string list \<Rightarrow> string list \<times> string list" where
  "dedup_loop [] seen unique_terms duplicates = (unique_terms, duplicates)"
| "dedup_loop (t # ts) seen unique_terms duplicates =
     (if t \<notin> seen then dedup_loop ts (insert t seen) (unique_terms @ [t]) duplicates
      else dedup_loop ts seen unique_terms (duplicates @ [t]))"

text \<open>The result tuple \<^verbatim>\<open>(unique_terms, duplicate_count, contains_ea_codes, duplicates)\<close>.\<close>

definition parse_search_terms :: "string \<Rightarrow> string list \<times> int \<times> bool \<times> string list" where
  "parse_search_terms search_input =
     (let terms = candidates search_input;
          total_terms = int (length terms);
          (unique_terms, duplicates) = dedup_loop terms {} [] [];
          duplicate_count = total_terms - int (length unique_terms)
      in (unique_terms, duplicate_count, contains_ea_codes search_input, duplicates))"

section \<open>JSON values and Python dictionaries\<close>

text \<open>
  The values that \<^verbatim>\<open>json.loads\<close> and \<^verbatim>\<open>request.json\<close> produce.  \<^verbatim>\<open>None\<close> is \<open>JNull\<close>.
  A dictionary with string keys is an association list in insertion order;
  assigning to a key that is present keeps its position (\<open>AList.update\<close>).
\<close>

datatype json =
  JNull | JBool bool | JInt int | JFloat pyfloat | JStr string
  | JList "json list" | JObj "(string \<times> json) list"

type_synonym pdict = "(string \<times> json) list"

definition has_key :: "pdict \<Rightarrow> string \<Rightarrow> bool" where
  "has_key d k = (map_of d k \<noteq> None)"

definition dget :: "pdict \<Rightarrow> string \<Rightarrow> json" where
  "dget d k = (case map_of d k of None \<Rightarrow> JNull | Some v \<Rightarrow> v)"

definition dget_default :: "pdict \<Rightarrow> string \<Rightarrow> json \<Rightarrow> json" where
  "dget_default d k v = (case map_of d k of None \<Rightarrow> v | Some w \<Rightarrow> w)"

definition dset :: "pdict \<Rightarrow> string \<Rightarrow> json \<Rightarrow> pdict" where
  "dset d k v = AList.update k v d"

text \<open>The built-in \<^verbatim>\<open>float(x)\<close>: \<^verbatim>\<open>bool\<close> is a subclass of \<^verbatim>\<open>int\<close>; an \<^verbatim>\<open>int\<close> is
  rounded, and one beyond the range of binary64 raises \<^verbatim>\<open>OverflowError\<close>.\<close>

fun py_float :: "json \<Rightarrow> py_error + pyfloat" where
  "py_float JNull = Inl TypeError"
| "py_float (JBool b) = Inr (Fin (if b then 1 else 0))"
| "py_float (JInt n) =
     (case round_double (of_int n) of Fin q \<Rightarrow> Inr (Fin q) | _ \<Rightarrow> Inl OverflowError)"
| "py_float (JFloat x) = Inr x"
| "py_float (JStr s) = (case float_of_string s of None \<Rightarrow> Inl ValueError | Some x \<Rightarrow> Inr x)"
| "py_float (JList _) = Inl TypeError"
| "py_float (JObj _) = Inl TypeError"

text \<open>\<^verbatim>\<open>sep.join(xs)\<close>: \<^verbatim>\<open>TypeError\<close> unless every item is a string.\<close>

fun join_strs :: "string \<Rightarrow> string list \<Rightarrow> string" where
  "join_strs sep [] = []"
| "join_strs sep [x] = x"
| "join_strs sep (x # y # ys) = x @ sep @ join_strs sep (y # ys)"

fun strs_of :: "json list \<Rightarrow> string list option" where
  "strs_of [] = Some []"
| "strs_of (JStr s # xs) = map_option ((#) s) (strs_of xs)"
| "strs_of (_ # xs) = None"

definition py_join :: "string \<Rightarrow> json list \<Rightarrow> py_error + string" where
  "py_join sep xs = (case strs_of xs of None \<Rightarrow> Inl TypeError | Some ss \<Rightarrow> Inr (join_strs sep ss))"

section \<open>Product normalizer (\<^verbatim>\<open>extract_product_info\<close>)\<close>

text \<open>The body of the \<^verbatim>\<open>try\<close> block of lines 587 to 593; \<open>Inl\<close> is the exception it
  raises.  \<^verbatim>\<open>discountPercentage\<close> is assigned only after \<^verbatim>\<open>round\<close> has returned.\<close>

definition discount_try :: "pdict \<Rightarrow> py_error + pdict" where
  "discount_try info =
     (case py_float (dget info ''currentPrice'') of
        Inl e \<Rightarrow> Inl e
      | Inr current_price \<Rightarrow>
          (case py_float (dget info ''originalPrice'') of
             Inl e \<Rightarrow> Inl e
           | Inr original_price \<Rightarrow>
               if f_gt original_price current_price then
                 (case f_div (f_sub original_price current_price) original_price of
                    Inl e \<Rightarrow> Inl e
                  | Inr d \<Rightarrow>
                      (case py_round (f_mul d (Fin 100)) of
                         Inl e \<Rightarrow> Inl e
                       | Inr n \<Rightarrow> Inr (dset info ''discountPercentage'' (JInt n))))
               else Inr info))"

text \<open>Lines 585 to 595: the guard, the \<^verbatim>\<open>try\<close> block and its handler
  \<^verbatim>\<open>except (ValueError, TypeError): pass\<close>.  Any other exception leaves the function.\<close>

definition discount_step :: "pdict \<Rightarrow> py_error + pdict" where
  "discount_step info =
     (if has_key info ''currentPrice'' \<and> has_key info ''originalPrice'' \<and>
         dget info ''currentPrice'' \<noteq> JNull \<and> dget info ''originalPrice'' \<noteq> JNull
      then (case discount_try info of
              Inl ValueError \<Rightarrow> Inr info
            | Inl TypeError \<Rightarrow> Inr info
            | r \<Rightarrow> r)
      else Inr info)"

text \<open>Lines 575 to 600, the price block.\<close>

definition price_current :: "pdict \<Rightarrow> pdict \<Rightarrow> pdict" where
  "price_current price_info info =
     (case dget price_info ''current'' of
        JObj cur \<Rightarrow> dset (dset info ''currentPrice'' (dget cur ''amount''))
                      ''currency'' (dget_default cur ''currency'' (JStr ''CAD''))
      | _ \<Rightarrow> info)"

definition price_original :: "pdict \<Rightarrow> pdict \<Rightarrow> py_error + pdict" where
  "price_original price_info info =
     (case dget price_info ''original'' of
        JObj orig \<Rightarrow> discount_step (dset info ''originalPrice'' (dget orig ''amount''))
      | _ \<Rightarrow> Inr info)"

definition price_unit :: "pdict \<Rightarrow> pdict \<Rightarrow> pdict" where
  "price_unit price_info info =
     (case dget price_info ''unit'' of
        JObj unit \<Rightarrow>
          dset (case dget unit ''current'' of
                  JObj uc \<Rightarrow> dset info ''unitPrice'' (dget uc ''amount'')
                | _ \<Rightarrow> info)
            ''unitLabel'' (dget unit ''label'')
      | _ \<Rightarrow> info)"

definition price_block :: "pdict \<Rightarrow> pdict \<Rightarrow> py_error + pdict" where
  "price_block product info =
     (case dget product ''price'' of
        JObj price_info \<Rightarrow>
          (case price_original price_info (price_current price_info info) of
             Inl e \<Rightarrow> Inl e
           | Inr info' \<Rightarrow> Inr (price_unit price_info info'))
      | _ \<Rightarrow> Inr info)"

text \<open>Lines 555 to 573: the initial dictionary, the image and the category.\<close>

definition initial_info :: "pdict \<Rightarrow> string \<Rightarrow> pdict" where
  "initial_info product search_term =
     [(''found'', JBool True),
      (''searchTerm'', JStr search_term),
      (''productId'', dget product ''productId''),
      (''retailerProductId'', dget product ''retailerProductId''),
      (''name'', dget product ''name''),
      (''brand'', dget product ''brand''),
      (''available'', dget_default product ''available'' (JBool False)),
      (''imageUrl'', JNull),
      (''currency'', JStr ''CAD'')]"

definition image_block :: "pdict \<Rightarrow> pdict \<Rightarrow> pdict" where
  "image_block product info =
     (case dget product ''image'' of
        JObj img \<Rightarrow> dset info ''imageUrl'' (dget img ''src'')
      | _ \<Rightarrow> info)"

definition category_block :: "pdict \<Rightarrow> pdict \<Rightarrow> py_error + pdict" where
  "category_block product info =
     (case dget product ''categoryPath'' of
        JList path \<Rightarrow>
          (case py_join '' > '' path of
             Inl e \<Rightarrow> Inl e
           | Inr c \<Rightarrow> Inr (dset info ''category'' (JStr c)))
      | _ \<Rightarrow> Inr (dset info ''category'' (JStr [])))"

text \<open>Lines 602 to 607: the offers.\<close>

definition offers_block :: "pdict \<Rightarrow> pdict \<Rightarrow> pdict" where
  "offers_block product info =
     (let info' = (case dget product ''offers'' of
                     JList offers \<Rightarrow> dset info ''offers'' (JList (take 5 offers))
                   | _ \<Rightarrow> info)
      in if has_key product ''offer'' then dset info' ''primaryOffer'' (dget product ''offer'')
         else info')"

definition extract_product_info :: "pdict \<Rightarrow> string \<Rightarrow> py_error + pdict" where
  "extract_product_info product search_term =
     (case category_block product (image_block product (initial_info product search_term)) of
        Inl e \<Rightarrow> Inl e
      | Inr info \<Rightarrow>
          (case price_block product info of
             Inl e \<Rightarrow> Inl e
           | Inr info' \<Rightarrow> Inr (offers_block product info')))"

text \<open>The amounts the discount is computed from, when the price block carries them.\<close>

definition current_amount :: "pdict \<Rightarrow> json" where
  "current_amount product =
     (case dget product ''price'' of
        JObj price_info \<Rightarrow> (case dget price_info ''current'' of JObj cur \<Rightarrow> dget cur ''amount'' | _ \<Rightarrow> JNull)
      | _ \<Rightarrow> JNull)"

definition original_amount :: "pdict \<Rightarrow> json" where
  "original_amount product =
     (case dget product ''price'' of
        JObj price_info \<Rightarrow> (case dget price_info ''original'' of JObj orig \<Rightarrow> dget orig ''amount'' | _ \<Rightarrow> JNull)
      | _ \<Rightarrow> JNull)"

section \<open>Resilient fetcher (\<^verbatim>\<open>fetch_product_data\<close>, \<^verbatim>\<open>extract_product_fields\<close>)\<close>

text \<open>
  What \<^verbatim>\<open>fetch_product_data\<close> returns: \<open>None\<close> is Python's \<^verbatim>\<open>None\<close>, and \<open>Some m\<close> is
  the dictionary \<^verbatim>\<open>{"entities": {"product": m}}\<close>, with \<open>m\<close> in insertion order.
\<close>

type_synonym fetch_result = "(json \<times> pdict) list option"

subsection \<open>The fixed regular expressions\<close>

text \<open>
  The patterns that the source writes out are matched by hand.  Each of them is
  deterministic: \<^verbatim>\<open>\s*\<close> is followed by a character that is no whitespace, and a
  string body ends at its first unescaped quote, so the first way to match is the only
  one.  \<open>search_from\<close> is \<^verbatim>\<open>re.search\<close>: the leftmost position at which the pattern
  matches.
\<close>

definition dq :: char where
  "dq = CHR 0x22"

definition bs :: char where
  "bs = CHR 0x5C"

fun search_from :: "(string \<Rightarrow> 'a option) \<Rightarrow> string \<Rightarrow> 'a option" where
  "search_from m [] = m []"
| "search_from m (c # cs) = (case m (c # cs) of Some r \<Rightarrow> Some r | None \<Rightarrow> search_from m cs)"

text \<open>\<^verbatim>\<open>\s*:\s*\<close>, and \<^verbatim>\<open>"key"\s*:\s*\<close> at the start of \<open>s\<close>; the result is what follows.\<close>

definition skip_colon :: "string \<Rightarrow> string option" where
  "skip_colon s =
     (case dropWhile is_space s of
        [] \<Rightarrow> None
      | c # r \<Rightarrow> if c = CHR '':'' then Some (dropWhile is_space r) else None)"

definition after_key :: "string \<Rightarrow> string \<Rightarrow> string option" where
  "after_key key s =
     (if starts_with s (quoted key) then skip_colon (drop (length (quoted key)) s) else None)"

text \<open>\<^verbatim>\<open>"([^"]+)"\<close> at the start of \<open>s\<close>: the group and what follows the match.\<close>

definition plain_string :: "string \<Rightarrow> (string \<times> string) option" where
  "plain_string s =
     (case s of
        [] \<Rightarrow> None
      | c # r \<Rightarrow>
          if c = dq then
            (let v = takeWhile (\<lambda>x. x \<noteq> dq) r; rest = dropWhile (\<lambda>x. x \<noteq> dq) r
             in if v \<noteq> [] \<and> rest \<noteq> [] then Some (v, tl rest) else None)
          else None)"

text \<open>\<^verbatim>\<open>([^"\\]*(?:\\.[^"\\]*)*)"\<close> after the opening quote: a backslash takes the next
  character with it, unless that is a newline.\<close>

fun escaped_body :: "string \<Rightarrow> string option" where
  "escaped_body [] = None"
| "escaped_body [c] = (if c = dq then Some [] else None)"
| "escaped_body (c # e # r) =
     (if c = dq then Some []
      else if c = bs then
        (if e = CHR 0x0A then None else map_option (\<lambda>v. c # e # v) (escaped_body r))
      else map_option ((#) c) (escaped_body (e # r)))"

definition escaped_string :: "string \<Rightarrow> string option" where
  "escaped_string s = (case s of [] \<Rightarrow> None | c # r \<Rightarrow> if c = dq then escaped_body r else None)"

text \<open>\<^verbatim>\<open>s.replace(old, new)\<close> for a non-empty \<open>old\<close>.\<close>

fun replace_all :: "string \<Rightarrow> string \<Rightarrow> nat \<Rightarrow> string \<Rightarrow> string" where
  "replace_all old new skip [] = []"
| "replace_all old new skip (c # cs) =
     (if 0 < skip then replace_all old new (skip - 1) cs
      else if starts_with (c # cs) old then new @ replace_all old new (length old - 1) cs
      else c # replace_all old new 0 cs)"

definition unescape_quote :: "string \<Rightarrow> string" where
  "unescape_quote s = replace_all [bs, dq] [dq] 0 s"

definition unescape :: "string \<Rightarrow> string" where
  "unescape s = replace_all [bs, bs] [bs] 0 (unescape_quote s)"

text \<open>The searches of \<^verbatim>\<open>extract_product_fields\<close>.\<close>

definition search_string_field :: "string \<Rightarrow> string \<Rightarrow> string option" where
  "search_string_field key text =
     search_from (\<lambda>s. case after_key key s of None \<Rightarrow> None | Some r \<Rightarrow> escaped_string r) text"

definition search_available :: "string \<Rightarrow> bool option" where
  "search_available text =
     search_from (\<lambda>s. case after_key ''available'' s of
                         None \<Rightarrow> None
                       | Some r \<Rightarrow> if starts_with r ''true'' then Some True
                                   else if starts_with r ''false'' then Some False
                                   else None) text"

definition search_current_amount :: "string \<Rightarrow> string option" where
  "search_current_amount text =
     search_from (\<lambda>s. case after_key ''current'' s of
                         None \<Rightarrow> None
                       | Some r \<Rightarrow>
                           (case r of
                              [] \<Rightarrow> None
                            | c # r' \<Rightarrow>
                                if c = CHR 0x7B then
                                  (case after_key ''amount'' (dropWhile is_space r') of
                                     None \<Rightarrow> None
                                   | Some r'' \<Rightarrow> map_option fst (plain_string r''))
                                else None)) text"

text \<open>\<^verbatim>\<open>re.finditer\<close> for \<^verbatim>\<open>"key"\s*:\s*"([^"]+)"\<close>: the groups of the matches from left
  to right, each search resuming where the last match ended (\<open>skip\<close> counts the
  characters of a match still to pass).\<close>

definition match_id :: "string \<Rightarrow> string \<Rightarrow> (string \<times> string) option" where
  "match_id key s = (case after_key key s of None \<Rightarrow> None | Some r \<Rightarrow> plain_string r)"

fun finditer_ids :: "string \<Rightarrow> nat \<Rightarrow> string \<Rightarrow> string list" where
  "finditer_ids key skip [] = []"
| "finditer_ids key skip (c # cs) =
     (if 0 < skip then finditer_ids key (skip - 1) cs
      else (case match_id key (c # cs) of
              None \<Rightarrow> finditer_ids key 0 cs
            | Some (v, rest) \<Rightarrow> v # finditer_ids key (length cs - length rest) cs))"

subsection \<open>\<^verbatim>\<open>extract_product_fields\<close>\<close>

definition clean_id :: "string \<Rightarrow> string" where
  "clean_id product_id = (if starts_with product_id ''retailer_'' then drop 9 product_id else product_id)"

definition extract_product_fields :: "string \<Rightarrow> string \<Rightarrow> pdict" where
  "extract_product_fields product_json product_id =
     (let product0 =
            [(''productId'', JStr (clean_id product_id)),
             (''retailerProductId'', JNull),
             (''name'', JNull),
             (''available'', JBool True),
             (''brand'', JNull),
             (''categoryPath'', JList []),
             (''price'', JObj [(''current'', JObj [(''amount'', JNull), (''currency'', JStr ''CAD'')])])];
          product1 = (case search_string_field ''retailerProductId'' product_json of
                        None \<Rightarrow> product0
                      | Some v \<Rightarrow> dset product0 ''retailerProductId'' (JStr (unescape_quote v)));
          product2 = (case search_string_field ''name'' product_json of
                        None \<Rightarrow> product1
                      | Some v \<Rightarrow> dset product1 ''name'' (JStr (unescape v)));
          product3 = (case search_string_field ''brand'' product_json of
                        None \<Rightarrow> product2
                      | Some v \<Rightarrow> dset product2 ''brand'' (JStr (unescape v)));
          product4 = (case search_available product_json of
                        None \<Rightarrow> product3
                      | Some b \<Rightarrow> dset product3 ''available'' (JBool b));
          product5 = (case search_current_amount product_json of
                        None \<Rightarrow> product4
                      | Some v \<Rightarrow> dset product4 ''price''
                            (JObj [(''current'', JObj [(''amount'', JStr v), (''currency'', JStr ''CAD'')])]))
      in (case search_string_field ''src'' product_json of
            None \<Rightarrow> product5
          | Some v \<Rightarrow> dset product5 ''image'' (JObj [(''src'', JStr (unescape v))])))"

subsection \<open>\<^verbatim>\<open>fetch_product_data\<close>\<close>

text \<open>
  What \<^verbatim>\<open>requests.get\<close> does: it raises \<^verbatim>\<open>requests.exceptions.Timeout\<close>, raises another
  exception, or returns a response with a status code and a body.
\<close>

datatype http_outcome = Timeout | RequestError | Response int string

text \<open>
  Two library functions are parameters of the model.  \<open>json_loads\<close> is \<^verbatim>\<open>json.loads\<close> on
  a substring that starts with an opening brace, so that a value it returns is a
  dictionary; it fails with \<open>JSONDecodeError\<close> or, on deep nesting, with
  \<open>RecursionError\<close>.  \<open>re_search\<close> is \<^verbatim>\<open>re.search\<close> with a pattern that the code builds
  from an identifier: the start of the leftmost match, \<open>None\<close>, or an error when the
  pattern does not compile.
\<close>

record pylib =
  json_loads :: "string \<Rightarrow> py_error + pdict"
  re_search :: "string \<Rightarrow> string \<Rightarrow> py_error + nat option"

text \<open>Dictionary keys: lists and dictionaries are unhashable; \<^verbatim>\<open>True\<close>, \<^verbatim>\<open>1\<close> and \<^verbatim>\<open>1.0\<close> are
  the same key.\<close>

definition key_norm :: "json \<Rightarrow> json" where
  "key_norm k =
     (case k of
        JBool b \<Rightarrow> JInt (if b then 1 else 0)
      | JFloat (Fin q) \<Rightarrow> if of_int \<lfloor>q\<rfloor> = q then JInt \<lfloor>q\<rfloor> else k
      | _ \<Rightarrow> k)"

definition dict_put :: "(json \<times> pdict) list \<Rightarrow> json \<Rightarrow> pdict \<Rightarrow> py_error + (json \<times> pdict) list" where
  "dict_put d k v =
     (case k of
        JList _ \<Rightarrow> Inl TypeError
      | JObj _ \<Rightarrow> Inl TypeError
      | _ \<Rightarrow> Inr (AList.update (key_norm k) v d))"

text \<open>The pattern of line 450, \<^verbatim>\<open>text.rfind("{", 0, start)\<close>, and the brace counter of
  lines 456 to 464, which returns \<^verbatim>\<open>brace_count\<close> and the number of characters passed.\<close>

definition search_pattern :: "string \<Rightarrow> string" where
  "search_pattern prod_id =
     (let ws = [bs] @ ''s*:'' @ [bs] @ ''s*'' in
      if \<not> starts_with prod_id ''retailer_''
      then quoted ''productId'' @ ws @ quoted prod_id
      else quoted ''retailerProductId'' @ ws @ quoted (drop 9 prod_id))"

fun rfind_brace :: "string \<Rightarrow> nat option" where
  "rfind_brace [] = None"
| "rfind_brace (c # cs) =
     (case rfind_brace cs of
        Some i \<Rightarrow> Some (Suc i)
      | None \<Rightarrow> if c = CHR 0x7B then Some 0 else None)"

fun count_braces :: "nat \<Rightarrow> nat \<Rightarrow> string \<Rightarrow> nat \<times> nat" where
  "count_braces brace_count passed [] = (brace_count, passed)"
| "count_braces brace_count passed (c # cs) =
     (if brace_count = 0 then (brace_count, passed)
      else count_braces (if c = CHR 0x7B then brace_count + 1
                         else if c = CHR 0x7D then brace_count - 1
                         else brace_count) (Suc passed) cs)"

text \<open>One round of the loop of lines 449 to 479 for the identifier \<open>prod_id\<close>.\<close>

definition fetch_step :: "pylib \<Rightarrow> string \<Rightarrow> string \<Rightarrow> (json \<times> pdict) list \<Rightarrow> py_error + (json \<times> pdict) list" where
  "fetch_step lib text_response prod_id result =
     (case re_search lib (search_pattern prod_id) text_response of
        Inl e \<Rightarrow> Inl e
      | Inr None \<Rightarrow> Inr result
      | Inr (Some start) \<Rightarrow>
          (case rfind_brace (take start text_response) of
             None \<Rightarrow> Inr result
           | Some obj_start \<Rightarrow>
               (let (brace_count, passed) = count_braces 1 0 (drop (obj_start + 1) text_response);
                    product_json = take (passed + 1) (drop obj_start text_response)
                in if brace_count = 0 then
                     (case json_loads lib product_json of
                        Inr product_data \<Rightarrow>
                          dict_put result
                            (if \<not> starts_with prod_id ''retailer_'' then JStr prod_id
                             else dget_default product_data ''productId'' (JStr prod_id))
                            product_data
                      | Inl JSONDecodeError \<Rightarrow>
                          (let fallback_product = extract_product_fields product_json prod_id
                           in if fallback_product \<noteq> []
                              then dict_put result (JStr prod_id) fallback_product
                              else Inr result)
                      | Inl e \<Rightarrow> Inl e)
                   else Inr result)))"

fun fetch_loop :: "pylib \<Rightarrow> string \<Rightarrow> string list \<Rightarrow> (json \<times> pdict) list \<Rightarrow> py_error + (json \<times> pdict) list" where
  "fetch_loop lib text_response [] result = Inr result"
| "fetch_loop lib text_response (prod_id # ids) result =
     (case fetch_step lib text_response prod_id result of
        Inl e \<Rightarrow> Inl e
      | Inr result' \<Rightarrow> fetch_loop lib text_response ids result')"

text \<open>Lines 439 to 447: the identifiers found in the body.\<close>

definition product_ids_of :: "string \<Rightarrow> string list" where
  "product_ids_of text_response =
     (let product_ids = finditer_ids ''productId'' 0 text_response in
      if product_ids = []
      then map (\<lambda>v. ''retailer_'' @ v) (finditer_ids ''retailerProductId'' 0 text_response)
      else product_ids)"

text \<open>Lines 483 to 490: one placeholder for each identifier, under its clean key.\<close>

definition placeholder :: "string \<Rightarrow> string \<Rightarrow> pdict" where
  "placeholder product_id prod_id =
     [(''productId'', JStr (clean_id prod_id)),
      (''retailerProductId'', JStr product_id),
      (''name'', JStr (''Product '' @ clean_id prod_id)),
      (''available'', JBool True)]"

fun add_placeholders :: "string \<Rightarrow> string list \<Rightarrow> (json \<times> pdict) list \<Rightarrow> (json \<times> pdict) list" where
  "add_placeholders product_id [] result = result"
| "add_placeholders product_id (prod_id # ids) result =
     add_placeholders product_id ids
       (AList.update (JStr (clean_id prod_id)) (placeholder product_id prod_id) result)"

text \<open>The body of the \<^verbatim>\<open>try\<close> block once the response is there (lines 423 to 492);
  \<open>None\<close> is the return value \<^verbatim>\<open>None\<close>.\<close>

definition fetch_body :: "pylib \<Rightarrow> int \<Rightarrow> string \<Rightarrow> string \<Rightarrow> py_error + fetch_result" where
  "fetch_body lib status_code text_response product_id =
     (if status_code \<noteq> 200 then Inr None
      else if \<not> contains text_response (quoted ''productId'') \<and>
              \<not> contains text_response (quoted ''retailerProductId'')
      then Inr (Some [])
      else (let product_ids = product_ids_of text_response in
            case fetch_loop lib text_response product_ids [] of
              Inl e \<Rightarrow> Inl e
            | Inr result \<Rightarrow>
                Inr (Some (if result = [] \<and> product_ids \<noteq> []
                           then add_placeholders product_id product_ids result
                           else result))))"

text \<open>\<^verbatim>\<open>fetch_product_data\<close> with its three handlers.\<close>

definition fetch_product_data :: "pylib \<Rightarrow> http_outcome \<Rightarrow> string \<Rightarrow> fetch_result" where
  "fetch_product_data lib outcome product_id =
     (case outcome of
        Timeout \<Rightarrow> None
      | RequestError \<Rightarrow> None
      | Response status_code text_response \<Rightarrow>
          (case fetch_body lib status_code text_response product_id of
             Inr r \<Rightarrow> r
           | Inl RecursionError \<Rightarrow> Some []
           | Inl e \<Rightarrow> None))"

section \<open>Term processing (\<^verbatim>\<open>process_term\<close>)\<close>

text \<open>A slice \<^verbatim>\<open>xs[:n]\<close> with an integer \<open>n\<close>: a negative \<open>n\<close> counts from the end.\<close>

definition slice_to :: "int \<Rightarrow> 'a list \<Rightarrow> 'a list" where
  "slice_to n xs = (if 0 \<le> n then take (nat n) xs else take (length xs - nat (- n)) xs)"

text \<open>
  Lines 636 to 646, the choice of \<^verbatim>\<open>product_keys\<close>.  In the \<^verbatim>\<open>try\<close> block a string
  limit goes through \<^verbatim>\<open>int\<close> (\<^verbatim>\<open>ValueError\<close> when it is no numeral); any other value is
  used as the slice bound as it is: an \<^verbatim>\<open>int\<close> or \<^verbatim>\<open>bool\<close> slices, \<^verbatim>\<open>None\<close> is the
  open bound of \<^verbatim>\<open>xs[:None]\<close>, and a float, list or dictionary raises \<^verbatim>\<open>TypeError\<close>.
  Both exceptions fall back to the first 10.
\<close>

definition select_keys :: "json \<Rightarrow> bool \<Rightarrow> 'a list \<Rightarrow> 'a list" where
  "select_keys limit is_article_search ks =
     (if is_article_search then take 1 ks
      else if limit \<noteq> JStr ''all'' then
        (case limit of
           JStr s \<Rightarrow> (case int_of_string s of None \<Rightarrow> take 10 ks | Some n \<Rightarrow> slice_to n ks)
         | JInt n \<Rightarrow> slice_to n ks
         | JBool b \<Rightarrow> slice_to (if b then 1 else 0) ks
         | JNull \<Rightarrow> ks
         | _ \<Rightarrow> take 10 ks)
      else take 50 ks)"

definition not_found_record :: "string \<Rightarrow> pdict" where
  "not_found_record term =
     [(''found'', JBool False), (''searchTerm'', JStr term), (''productId'', JNull),
      (''retailerProductId'', JNull), (''name'', JStr (''Article Not Found: '' @ term)),
      (''brand'', JNull), (''available'', JBool False), (''category'', JStr []),
      (''imageUrl'', JNull),
      (''notFoundMessage'', JStr (''The article '' @ quoted term @
          '' was not found. It may not be published yet or could be a typo.''))]"

definition processing_error_record :: "string \<Rightarrow> pdict" where
  "processing_error_record term =
     [(''found'', JBool False), (''searchTerm'', JStr term), (''productId'', JNull),
      (''retailerProductId'', JNull), (''name'', JStr (''Processing Error: '' @ term)),
      (''brand'', JNull), (''available'', JBool False), (''category'', JStr []),
      (''imageUrl'', JNull),
      (''notFoundMessage'', JStr ''Data too complex to process. Try a more specific search term.'')]"

definition error_record :: "string \<Rightarrow> pdict" where
  "error_record term =
     [(''found'', JBool False), (''searchTerm'', JStr term), (''productId'', JNull),
      (''retailerProductId'', JNull), (''name'', JStr (''Article Not Found: '' @ term)),
      (''brand'', JNull), (''available'', JBool False), (''category'', JStr []),
      (''imageUrl'', JNull),
      (''notFoundMessage'', JStr ''Error processing the article. Please try again.'')]"

definition too_complex_record :: "pdict \<Rightarrow> string \<Rightarrow> pdict" where
  "too_complex_record product term =
     [(''found'', JBool True), (''searchTerm'', JStr term),
      (''productId'', dget product ''productId''),
      (''name'', dget_default product ''name'' (JStr ''Product Name Unavailable'')),
      (''brand'', dget_default product ''brand'' (JStr ''Brand Unavailable'')),
      (''available'', JBool False), (''category'', JStr []), (''imageUrl'', JNull),
      (''currentPrice'', JNull),
      (''message'', JStr ''Product data too complex to fully process'')]"

text \<open>The loop of lines 651 to 654: the first exception ends it.\<close>

fun extract_all :: "pdict list \<Rightarrow> string \<Rightarrow> py_error + pdict list" where
  "extract_all [] term = Inr []"
| "extract_all (product # ps) term =
     (case extract_product_info product term of
        Inl e \<Rightarrow> Inl e
      | Inr product_info \<Rightarrow>
          (case extract_all ps term of
             Inl e \<Rightarrow> Inl e
           | Inr all_products \<Rightarrow> Inr (product_info # all_products)))"

text \<open>What \<^verbatim>\<open>process_term\<close> returns as the first component: one record or a list.\<close>

datatype term_result = One pdict | Many "pdict list"

text \<open>The body of the outer \<^verbatim>\<open>try\<close> of \<^verbatim>\<open>process_term\<close>, for the value \<open>raw_data\<close> that
  \<^verbatim>\<open>fetch_product_data\<close> returned.\<close>

definition process_term_try :: "fetch_result \<Rightarrow> string \<Rightarrow> json \<Rightarrow> bool \<Rightarrow> py_error + term_result \<times> int" where
  "process_term_try raw_data term limit is_article_search =
     (case raw_data of
        None \<Rightarrow> Inr (One (not_found_record term), 0)
      | Some product_entities \<Rightarrow>
          if product_entities \<noteq> [] then
            (let total_found = int (length product_entities);
                 products = select_keys limit is_article_search (map snd product_entities)
             in if \<not> is_article_search \<and> length products > 0 then
                  (case extract_all products term of
                     Inl e \<Rightarrow> Inl e
                   | Inr all_products \<Rightarrow> Inr (Many all_products, total_found))
                else (case products of
                        product # _ \<Rightarrow>
                          (case extract_product_info product term of
                             Inr product_info \<Rightarrow> Inr (One product_info, total_found)
                           | Inl RecursionError \<Rightarrow> Inr (One (too_complex_record product term), 1)
                           | Inl e \<Rightarrow> Inl e)
                      | [] \<Rightarrow> Inr (One (not_found_record term), 0)))
          else Inr (One (not_found_record term), 0))"

text \<open>\<^verbatim>\<open>process_term\<close> with its two handlers; \<open>fetch\<close> is what \<^verbatim>\<open>fetch_product_data\<close>
  returns for a term.\<close>

definition process_term :: "(string \<Rightarrow> fetch_result) \<Rightarrow> string \<Rightarrow> json \<Rightarrow> bool \<Rightarrow> term_result \<times> int" where
  "process_term fetch term limit is_article_search =
     (case process_term_try (fetch term) term limit is_article_search of
        Inr r \<Rightarrow> r
      | Inl RecursionError \<Rightarrow> (One (processing_error_record term), 0)
      | Inl e \<Rightarrow> (One (error_record term), 0))"

section \<open>Chunk processing (\<^verbatim>\<open>process_chunk\<close>)\<close>

text \<open>
  The loop over \<^verbatim>\<open>as_completed(futures)\<close>: each completed future is a term with either
  the pair that \<^verbatim>\<open>process_term\<close> returned or the exception that \<^verbatim>\<open>future.result()\<close>
  raises.  The accumulators are \<^verbatim>\<open>chunk_products\<close>, \<^verbatim>\<open>total_found\<close> and
  \<^verbatim>\<open>processed_count\<close>.
\<close>

fun collect :: "(string \<times> (py_error + term_result \<times> int)) list \<Rightarrow> pdict list \<times> int \<times> int \<Rightarrow> pdict list \<times> int \<times> int" where
  "collect [] acc = acc"
| "collect ((term, outcome) # rest) (chunk_products, total_found, processed_count) =
     collect rest
       (case outcome of
          Inr (product_result, term_total_found) \<Rightarrow>
            (case product_result of
               Many ps \<Rightarrow> (chunk_products @ ps, total_found + term_total_found, processed_count + 1)
             | One d \<Rightarrow> (if d \<noteq> [] then chunk_products @ [d] else chunk_products,
                         total_found + term_total_found, processed_count + 1))
        | Inl e \<Rightarrow> (chunk_products @ [error_record term], total_found, processed_count + 1))"

text \<open>The session store: the rows of table \<^verbatim>\<open>products\<close> (session id and record, in
  insertion order) and the counters of table \<^verbatim>\<open>sessions\<close>.\<close>

record session_row =
  total_terms :: int
  processed_terms :: int
  total_products :: int

record database =
  sessions :: "(string \<times> session_row) list"
  products :: "(string \<times> pdict) list"

definition store_products_batch :: "string \<Rightarrow> pdict list \<Rightarrow> database \<Rightarrow> database" where
  "store_products_batch session_id products_data db =
     db\<lparr>products := products db @ map (\<lambda>product. (session_id, product)) products_data\<rparr>"

text \<open>The \<^verbatim>\<open>SELECT\<close> of lines 835 to 839 and \<^verbatim>\<open>update_session_progress\<close>, which writes
  the two counters it is given.\<close>

definition select_progress :: "string \<Rightarrow> database \<Rightarrow> (int \<times> int) option" where
  "select_progress session_id db =
     map_option (\<lambda>row. (processed_terms row, total_products row)) (map_of (sessions db) session_id)"

definition update_session_progress :: "string \<Rightarrow> int \<Rightarrow> int \<Rightarrow> database \<Rightarrow> database" where
  "update_session_progress session_id new_processed new_total_products db =
     db\<lparr>sessions := map (\<lambda>(sid, row). if sid = session_id
                                then (sid, row\<lparr>processed_terms := new_processed,
                                               total_products := new_total_products\<rparr>)
                                else (sid, row)) (sessions db)\<rparr>"

record chunk_request =
  sessionId :: string
  voilaSessionId :: string
  chunkIndex :: json
  searchTerms :: "string list"
  limit :: json
  searchType :: string

record chunk_response =
  chunk_index :: json
  processed_count :: int
  products_found :: int
  total_found :: int

text \<open>
  \<^verbatim>\<open>process_chunk\<close> for a request whose fields are read with their defaults
  (\<^verbatim>\<open>limit\<close>: \<^verbatim>\<open>'all'\<close>, \<^verbatim>\<open>searchType\<close>: \<^verbatim>\<open>'article'\<close>).  \<open>as_completed\<close> is the order
  in which the futures complete.  \<open>None\<close> is the response 400.  The database
  operations are taken to succeed.
\<close>

definition chunk_products_of :: "(string list \<Rightarrow> string list) \<Rightarrow> (string \<Rightarrow> fetch_result) \<Rightarrow> chunk_request \<Rightarrow> pdict list \<times> int \<times> int" where
  "chunk_products_of as_completed fetch req =
     collect (map (\<lambda>term. (term, Inr (process_term fetch term (limit req) (searchType req = ''article''))))
                (as_completed (searchTerms req)))
       ([], 0, 0)"

definition process_chunk :: "(string list \<Rightarrow> string list) \<Rightarrow> (string \<Rightarrow> fetch_result) \<Rightarrow> chunk_request \<Rightarrow> database \<Rightarrow> chunk_response option \<times> database" where
  "process_chunk as_completed fetch req db =
     (if sessionId req = [] \<or> voilaSessionId req = [] \<or> searchTerms req = [] then (None, db)
      else (let (chunk_products, total, processed) = chunk_products_of as_completed fetch req;
                db1 = (if chunk_products \<noteq> [] then store_products_batch (sessionId req) chunk_products db
                       else db);
                db2 = (case select_progress (sessionId req) db1 of
                         None \<Rightarrow> db1
                       | Some (current_processed, current_total_products) \<Rightarrow>
                           update_session_progress (sessionId req)
                             (current_processed + processed)
                             (current_total_products + int (length chunk_products)) db1)
            in (Some \<lparr>chunk_index = chunkIndex req, processed_count = processed,
                      products_found = int (length chunk_products), total_found = total\<rparr>,
                db2)))"

text \<open>The records that one completed future adds to \<^verbatim>\<open>chunk_products\<close>.\<close>

definition records_of :: "string \<times> (py_error + term_result \<times> int) \<Rightarrow> pdict list" where
  "records_of x =
     (case snd x of
        Inr (Many ps, _) \<Rightarrow> ps
      | Inr (One d, _) \<Rightarrow> (if d \<noteq> [] then [d] else [])
      | Inl e \<Rightarrow> [error_record (fst x)])"

text \<open>The product records among the records that \<^verbatim>\<open>process_term\<close> returned.\<close>

definition found_records :: "term_result \<Rightarrow> pdict list" where
  "found_records r =
     filter (\<lambda>d. dget d ''found'' = JBool True) (case r of One d \<Rightarrow> [d] | Many ps \<Rightarrow> ps)"

section \<open>Example inputs\<close>

text \<open>A fetcher that finds two products for the term \<^verbatim>\<open>milk\<close> and fails for every other
  term, a store with one session, and a chunk request for that session.\<close>

definition example_fetch :: "string \<Rightarrow> fetch_result" where
  "example_fetch t =
     (if t = ''milk'' then Some [(JStr ''p1'', [(''productId'', JStr ''p1'')]),
                                 (JStr ''p2'', [(''productId'', JStr ''p2'')])]
      else None)"

definition example_db :: database where
  "example_db = \<lparr>sessions = [(''s1'', \<lparr>total_terms = 2, processed_terms = 0, total_products = 0\<rparr>)],
                  products = []\<rparr>"

definition example_request :: "string list \<Rightarrow> json \<Rightarrow> string \<Rightarrow> chunk_request" where
  "example_request terms lmt search_type =
     \<lparr>sessionId = ''s1'', voilaSessionId = ''v1'', chunkIndex = JInt 0, searchTerms = terms,
      limit = lmt, searchType = search_type\<rparr>"

text \<open>Eleven products, as the fetcher returns them for one term.\<close>

definition eleven_products :: "(json \<times> pdict) list" where
  "eleven_products = map (\<lambda>n. (JInt n, [(''productId'', JInt n)])) [1, 2, 3, 4, 5, 6, 7, 8, 9, 10, 11]"

section \<open>Properties of the term parser\<close>


lemma filter_upt_Suc:
  "filter P [0..<Suc n] = (if P 0 then [0] else []) @ map Suc (filter (\<lambda>i. P (Suc i)) [0..<n])"
proof -
  have "[0..<Suc n] = 0 # map Suc [0..<n]"
    by (simp add: upt_conv_Cons map_Suc_upt del: upt_Suc)
  then show ?thesis
    by (simp add: filter_map comp_def del: upt_Suc)
qed

text \<open>What the loop appends: the entries of \<open>ts\<close> that are (respectively are not) the
  first occurrence of their value, neither seen before the loop nor earlier in \<open>ts\<close>.\<close>

lemma dedup_loop_index:
  "dedup_loop ts seen u d =
     (u @ map ((!) ts) (filter (\<lambda>i. ts ! i \<notin> seen \<union> set (take i ts)) [0..<length ts]),
      d @ map ((!) ts) (filter (\<lambda>i. ts ! i \<in> seen \<union> set (take i ts)) [0..<length ts]))"
proof (induction ts arbitrary: seen u d)
  case Nil
  then show ?case by simp
next
  case (Cons t ts)
  have a: "(\<lambda>i. ts ! i \<noteq> t \<and> ts ! i \<notin> seen \<and> ts ! i \<notin> set (take i ts))
         = (\<lambda>i. ts ! i \<notin> seen \<and> ts ! i \<noteq> t \<and> ts ! i \<notin> set (take i ts))"
    by auto
  have b: "(\<lambda>i. ts ! i = t \<or> ts ! i \<in> seen \<or> ts ! i \<in> set (take i ts))
         = (\<lambda>i. ts ! i \<in> seen \<or> ts ! i = t \<or> ts ! i \<in> set (take i ts))"
    by auto
  have c: "t \<in> seen \<Longrightarrow> (\<lambda>i. ts ! i \<notin> seen \<and> ts ! i \<noteq> t \<and> ts ! i \<notin> set (take i ts))
         = (\<lambda>i. ts ! i \<notin> seen \<and> ts ! i \<notin> set (take i ts))"
    by auto
  have d: "t \<in> seen \<Longrightarrow> (\<lambda>i. ts ! i \<in> seen \<or> ts ! i = t \<or> ts ! i \<in> set (take i ts))
         = (\<lambda>i. ts ! i \<in> seen \<or> ts ! i \<in> set (take i ts))"
    by auto
  show ?case
    by (simp add: Cons.IH filter_upt_Suc comp_def a b c d del: upt_Suc)
qed

lemma dedup_loop_distinct:
  "distinct u \<Longrightarrow> set u \<subseteq> seen \<Longrightarrow> distinct (fst (dedup_loop ts seen u d))"
proof (induction ts arbitrary: seen u d)
  case Nil
  then show ?case by simp
next
  case (Cons t ts)
  show ?case
  proof (cases "t \<in> seen")
    case True
    then show ?thesis using Cons.IH [OF Cons.prems] by simp
  next
    case False
    have "distinct (u @ [t])" using Cons.prems False by auto
    moreover have "set (u @ [t]) \<subseteq> insert t seen" using Cons.prems by auto
    ultimately show ?thesis using Cons.IH False by simp
  qed
qed

text \<open>
  C4, as the code has it.  \<^verbatim>\<open>parse_search_terms\<close> is a function of its input string alone.
  With \<open>cands\<close> the split pieces after trimming and after dropping the empty ones (the
  list whose length the code calls \<^verbatim>\<open>total_terms\<close>): the returned terms are pairwise
  distinct and are exactly the first occurrences in \<open>cands\<close>, in order; the returned
  duplicates are exactly the later occurrences, in order; and
  \<open>duplicate_count + |unique_terms| = |cands|\<close>.
\<close>

theorem parse_search_terms_dedup:
  "(let (unique_terms, duplicate_count, ea, duplicates) = parse_search_terms search_input;
        cands = candidates search_input
    in distinct unique_terms
     \<and> unique_terms = map ((!) cands) (filter (\<lambda>i. cands ! i \<notin> set (take i cands)) [0..<length cands])
     \<and> duplicates = map ((!) cands) (filter (\<lambda>i. cands ! i \<in> set (take i cands)) [0..<length cands])
     \<and> duplicate_count + int (length unique_terms) = int (length cands))"
proof -
  obtain u d where ud: "dedup_loop (candidates search_input) {} [] [] = (u, d)"
    by (cases "dedup_loop (candidates search_input) {} [] []")
  have "distinct u"
    using dedup_loop_distinct [of "[]" "{}" "candidates search_input" "[]"] ud by simp
  moreover have "u = map ((!) (candidates search_input))
        (filter (\<lambda>i. candidates search_input ! i \<notin> set (take i (candidates search_input)))
           [0..<length (candidates search_input)])"
    and "d = map ((!) (candidates search_input))
        (filter (\<lambda>i. candidates search_input ! i \<in> set (take i (candidates search_input)))
           [0..<length (candidates search_input)])"
    using dedup_loop_index [of "candidates search_input" "{}" "[]" "[]"] ud by simp_all
  ultimately show ?thesis
    by (simp add: parse_search_terms_def Let_def ud)
qed

text \<open>
  C4, as stated, counts the raw split candidates, the pieces that \<^verbatim>\<open>re.split\<close> returns.
  The input \<^verbatim>\<open>a,,b\<close> splits into three pieces, one of them empty; the parser returns two
  terms and a duplicate count of 0.
\<close>

theorem parse_search_terms_raw_count_counterexample:
  "parse_search_terms ''a,,b'' = ([''a'', ''b''], 0, False, [])
   \<and> raw_split ''a,,b'' = [''a'', [], ''b'']
   \<and> (0::int) + int (length [''a'', ''b'']) \<noteq> int (length (raw_split ''a,,b''))"
  by code_simp

text \<open>
  C8: the input \<^verbatim>\<open>123EA456EA\<close> parses to the terms \<^verbatim>\<open>123EA\<close> and \<^verbatim>\<open>456EA\<close>, with no
  duplicates and the dense-code flag set.
\<close>

theorem parse_search_terms_dense_codes:
  "parse_search_terms ''123EA456EA'' = ([''123EA'', ''456EA''], 0, True, [])"
  by code_simp


section \<open>Evaluation rules for concrete numbers\<close>

lemma bit_length_0: "bit_length 0 = 0"
  by (simp add: bit_length.simps)

lemma bit_length_1: "bit_length 1 = 1"
  by (subst bit_length.simps) (simp add: bit_length_0)

lemma bit_length_Bit0: "bit_length (numeral (Num.Bit0 n)) = 1 + bit_length (numeral n)"
  by (subst bit_length.simps) simp

lemma bit_length_Bit1: "bit_length (numeral (Num.Bit1 n)) = 1 + bit_length (numeral n)"
  by (subst bit_length.simps) simp

lemma floor_rat_numeral: "\<lfloor>numeral a / numeral b :: rat\<rfloor> = numeral a div numeral b"
  using floor_divide_of_int_eq [of "numeral a" "numeral b", where ?'a = rat] by simp

lemma ceiling_rat_numeral: "\<lceil>numeral a / numeral b :: rat\<rceil> = - (- numeral a div numeral b)"
  using ceiling_divide_eq_div [of "numeral a" "numeral b", where ?'a = rat] by simp

lemmas float_eval =
  round_double_def ilog2_def pow2_def round_half_even_def Let_def
  bit_length_0 bit_length_1 bit_length_Bit0 bit_length_Bit1 floor_rat_numeral ceiling_rat_numeral

lemmas normalizer_eval =
  extract_product_info_def category_block_def image_block_def initial_info_def price_block_def
  price_current_def price_original_def price_unit_def offers_block_def discount_step_def
  discount_try_def dget_def dget_default_def dset_def has_key_def py_join_def
  current_amount_def original_amount_def

lemmas float_parse_eval =
  float_of_string_def strip_num_def is_num_space_def code_point_def split_sign_def
  parse_unsigned_float_def parse_exponent_def lower_def starts_with_def is_digit_def
  digits_val_def pow10_def

section \<open>Properties of the product normalizer\<close>

lemma map_of_dset: "map_of (dset d k v) k' = (if k' = k then Some v else map_of d k')"
  by (simp add: dset_def update_conv)

lemma has_key_dset: "has_key (dset d k v) k' = (k' = k \<or> has_key d k')"
  by (simp add: has_key_def map_of_dset)

lemma dget_dset: "dget (dset d k v) k' = (if k' = k then v else dget d k')"
  by (simp add: dget_def map_of_dset)

lemma has_key_initial:
  "has_key (initial_info product t) k =
     (k \<in> {''found'', ''searchTerm'', ''productId'', ''retailerProductId'', ''name'', ''brand'',
            ''available'', ''imageUrl'', ''currency''})"
  by (auto simp: has_key_def initial_info_def)

lemma has_key_image: "has_key (image_block product info) k = (has_key info k \<or> (k = ''imageUrl'' \<and> (\<exists>i. dget product ''image'' = JObj i)))"
  by (auto simp: image_block_def has_key_dset split: json.splits)

lemma has_key_category:
  "category_block product info = Inr info' \<Longrightarrow> has_key info' k = (k = ''category'' \<or> has_key info k)"
  by (auto simp: category_block_def has_key_dset split: json.splits sum.splits)

lemma has_key_stage1:
  assumes "category_block product (image_block product (initial_info product t)) = Inr info"
  shows "\<not> has_key info ''discountPercentage''" "\<not> has_key info ''currentPrice''" "\<not> has_key info ''originalPrice''"
  using has_key_category [OF assms] by (simp_all add: has_key_image has_key_initial)

lemma discount_try_key:
  assumes "discount_try info = Inr info'" "\<not> has_key info ''discountPercentage''" "has_key info' ''discountPercentage''"
  shows "\<exists>c r. py_float (dget info ''currentPrice'') = Inr c \<and> py_float (dget info ''originalPrice'') = Inr r \<and> f_gt r c"
  using assms by (auto simp: discount_try_def split: sum.splits if_splits)

lemma discount_step_key:
  assumes "discount_step info = Inr info'" "\<not> has_key info ''discountPercentage''" "has_key info' ''discountPercentage''"
  shows "has_key info ''currentPrice'' \<and> (\<exists>c r. py_float (dget info ''currentPrice'') = Inr c \<and> py_float (dget info ''originalPrice'') = Inr r \<and> f_gt r c)"
proof -
  from assms have g: "has_key info ''currentPrice''" and "discount_step info \<noteq> Inr info"
    by (auto simp: discount_step_def split: if_splits)
  with assms have "discount_try info = Inr info'"
    by (auto simp: discount_step_def split: if_splits sum.splits py_error.splits)
  from discount_try_key [OF this assms(2,3)] g show ?thesis by simp
qed

lemma price_block_key:
  assumes "price_block product info = Inr info'"
    and "\<not> has_key info ''discountPercentage''" "\<not> has_key info ''currentPrice''"
    and "has_key info' ''discountPercentage''"
  shows "\<exists>c r. py_float (current_amount product) = Inr c \<and> py_float (original_amount product) = Inr r \<and> f_gt r c"
proof -
  from assms obtain pinfo where p: "dget product ''price'' = JObj pinfo"
    by (auto simp: price_block_def split: json.splits)
  with assms(1) obtain i2 where po: "price_original pinfo (price_current pinfo info) = Inr i2"
    and u: "info' = price_unit pinfo i2"
    by (auto simp: price_block_def split: sum.splits)
  have nd: "\<not> has_key (price_current pinfo info) ''discountPercentage''"
    using assms(2) by (auto simp: price_current_def has_key_dset split: json.splits)
  have k2: "has_key i2 ''discountPercentage''"
    using assms(4) u by (auto simp: price_unit_def has_key_dset split: json.splits)
  from po k2 nd obtain orig where og: "dget pinfo ''original'' = JObj orig"
    and ds: "discount_step (dset (price_current pinfo info) ''originalPrice'' (dget orig ''amount'')) = Inr i2"
    by (auto simp: price_original_def split: json.splits)
  let ?i = "dset (price_current pinfo info) ''originalPrice'' (dget orig ''amount'')"
  have "\<not> has_key ?i ''discountPercentage''" using nd by (simp add: has_key_dset)
  from discount_step_key [OF ds this k2]
  obtain c r where hk: "has_key ?i ''currentPrice''"
    and c: "py_float (dget ?i ''currentPrice'') = Inr c"
    and o': "py_float (dget ?i ''originalPrice'') = Inr r" and gt: "f_gt r c"
    by blast
  from hk assms(3) obtain cur where cg: "dget pinfo ''current'' = JObj cur"
    by (auto simp: has_key_dset price_current_def split: json.splits)
  have "dget ?i ''currentPrice'' = current_amount product"
    using p cg by (simp add: dget_dset price_current_def current_amount_def)
  moreover have "dget ?i ''originalPrice'' = original_amount product"
    using p og by (simp add: dget_dset original_amount_def)
  ultimately show ?thesis using c o' gt by auto
qed

lemma has_key_offers:
  "has_key (offers_block product info) ''discountPercentage'' = has_key info ''discountPercentage''"
  by (auto simp: offers_block_def has_key_dset Let_def split: json.splits)

text \<open>
  C3, as the code has it.  If normalization returns a record that carries
  \<^verbatim>\<open>discountPercentage\<close>, then \<^verbatim>\<open>float\<close> converts both the current and the original
  amount of the price block, and the original is greater than the current one.  The
  code asks nothing about the sign of either price.
\<close>

theorem discount_percentage_only_if:
  assumes "extract_product_info product search_term = Inr info"
    and "has_key info ''discountPercentage''"
  shows "\<exists>c r. py_float (current_amount product) = Inr c \<and> py_float (original_amount product) = Inr r \<and> f_gt r c"
proof -
  from assms(1) obtain i1 i2 where
    a: "category_block product (image_block product (initial_info product search_term)) = Inr i1"
    and b: "price_block product i1 = Inr i2" and c: "info = offers_block product i2"
    by (auto simp: extract_product_info_def split: sum.splits)
  have "has_key i2 ''discountPercentage''" using assms(2) c by (simp add: has_key_offers)
  from price_block_key [OF b has_key_stage1(1,2) [OF a] this] show ?thesis .
qed


theorem discount_percentage_only_if_witness:
  "extract_product_info
     [(''price'', JObj [(''current'', JObj [(''amount'', JStr ''8.00'')]),
                        (''original'', JObj [(''amount'', JStr ''10.00'')])])] ''x''
   = Inr [(''found'', JBool True), (''searchTerm'', JStr ''x''), (''productId'', JNull),
          (''retailerProductId'', JNull), (''name'', JNull), (''brand'', JNull),
          (''available'', JBool False), (''imageUrl'', JNull), (''currency'', JStr ''CAD''),
          (''category'', JStr []), (''currentPrice'', JStr ''8.00''),
          (''originalPrice'', JStr ''10.00''), (''discountPercentage'', JInt 20)]
   \<and> (\<exists>c r. py_float (current_amount
               [(''price'', JObj [(''current'', JObj [(''amount'', JStr ''8.00'')]),
                                  (''original'', JObj [(''amount'', JStr ''10.00'')])])]) = Inr c
           \<and> py_float (original_amount
               [(''price'', JObj [(''current'', JObj [(''amount'', JStr ''8.00'')]),
                                  (''original'', JObj [(''amount'', JStr ''10.00'')])])]) = Inr r
           \<and> f_gt r c)"
proof -
  let ?p = "[(''price'', JObj [(''current'', JObj [(''amount'', JStr ''8.00'')]),
                              (''original'', JObj [(''amount'', JStr ''10.00'')])])]"
  let ?info = "[(''found'', JBool True), (''searchTerm'', JStr ''x''), (''productId'', JNull),
          (''retailerProductId'', JNull), (''name'', JNull), (''brand'', JNull),
          (''available'', JBool False), (''imageUrl'', JNull), (''currency'', JStr ''CAD''),
          (''category'', JStr []), (''currentPrice'', JStr ''8.00''),
          (''originalPrice'', JStr ''10.00''), (''discountPercentage'', JInt 20)]"
  have a: "extract_product_info ?p ''x'' = Inr ?info"
    by (simp add: normalizer_eval float_parse_eval float_eval)
  have b: "has_key ?info ''discountPercentage''"
    by (simp add: has_key_def)
  from a discount_percentage_only_if [OF a b] show ?thesis by simp
qed

text \<open>
  C3, as stated, asks for positive prices.  A current amount of 0 below an original
  amount of 10 is not positive, and the record carries a discount of 100 percent.
\<close>

theorem discount_percentage_zero_price_counterexample:
  "extract_product_info
     [(''price'', JObj [(''current'', JObj [(''amount'', JInt 0)]),
                        (''original'', JObj [(''amount'', JInt 10)])])] ''x''
   = Inr [(''found'', JBool True), (''searchTerm'', JStr ''x''), (''productId'', JNull),
          (''retailerProductId'', JNull), (''name'', JNull), (''brand'', JNull),
          (''available'', JBool False), (''imageUrl'', JNull), (''currency'', JStr ''CAD''),
          (''category'', JStr []), (''currentPrice'', JInt 0), (''originalPrice'', JInt 10),
          (''discountPercentage'', JInt 100)]
   \<and> py_float (JInt 0) = Inr (Fin 0) \<and> \<not> (0 :: rat) < 0"
  by (simp add: normalizer_eval float_eval)

text \<open>
  C2: a current amount of 8.00 and an original amount of 10.00 give a discount of 20
  (see the witness above).  The handler of the conversion errors catches \<^verbatim>\<open>ValueError\<close>
  and \<^verbatim>\<open>TypeError\<close> only: a JSON integer beyond the range of binary64 makes \<^verbatim>\<open>float\<close>
  raise \<^verbatim>\<open>OverflowError\<close>, which leaves the normalizer, although the current amount is
  not below the original one.
\<close>

theorem extract_product_info_overflow_error:
  "extract_product_info
     [(''price'', JObj [(''current'', JObj [(''amount'', JInt (10 ^ 400))]),
                        (''original'', JObj [(''amount'', JInt 1)])])] ''x'' = Inl OverflowError"
  by (simp add: normalizer_eval float_eval)

section \<open>Properties of term and chunk processing\<close>

lemma collect_eq:
  "collect os (cp, tf, pc) =
     (cp @ concat (map records_of os),
      tf + sum_list (map (\<lambda>x. case snd x of Inr (_, n) \<Rightarrow> n | Inl _ \<Rightarrow> 0) os),
      pc + int (length os))"
proof (induction os arbitrary: cp tf pc)
  case Nil
  then show ?case by simp
next
  case (Cons x os)
  obtain t outcome where x: "x = (t, outcome)" by (cases x)
  show ?case
    by (cases outcome) (auto simp: x Cons.IH records_of_def split: term_result.splits prod.splits)
qed

lemma extract_all_length: "extract_all ps t = Inr qs \<Longrightarrow> length qs = length ps"
  by (induction ps arbitrary: qs) (auto split: sum.splits)

lemma discount_step_frame:
  "discount_step info = Inr info' \<Longrightarrow> k \<noteq> ''discountPercentage'' \<Longrightarrow> map_of info' k = map_of info k"
  by (auto simp: discount_step_def discount_try_def map_of_dset
      split: if_splits sum.splits py_error.splits)

lemma price_block_frame:
  assumes "price_block product info = Inr info'"
    and "k \<notin> {''currentPrice'', ''currency'', ''originalPrice'', ''discountPercentage'',
               ''unitPrice'', ''unitLabel''}"
  shows "map_of info' k = map_of info k"
proof (cases "dget product ''price''")
  case (JObj pinfo)
  with assms(1) obtain i2 where po: "price_original pinfo (price_current pinfo info) = Inr i2"
    and u: "info' = price_unit pinfo i2"
    by (auto simp: price_block_def split: sum.splits)
  have "map_of (price_current pinfo info) k = map_of info k"
    using assms(2) by (auto simp: price_current_def map_of_dset split: json.splits)
  moreover have "map_of i2 k = map_of (price_current pinfo info) k"
    using po assms(2) discount_step_frame [of _ i2 k]
    by (auto simp: price_original_def map_of_dset split: json.splits)
  moreover have "map_of info' k = map_of i2 k"
    using assms(2) by (auto simp: u price_unit_def map_of_dset split: json.splits)
  ultimately show ?thesis by simp
qed (use assms in \<open>auto simp: price_block_def\<close>)

lemma extract_product_info_found_term:
  assumes "extract_product_info product t = Inr d"
  shows "map_of d ''found'' = Some (JBool True)" and "map_of d ''searchTerm'' = Some (JStr t)"
proof -
  from assms obtain i1 i2 where
    a: "category_block product (image_block product (initial_info product t)) = Inr i1"
    and b: "price_block product i1 = Inr i2" and c: "d = offers_block product i2"
    by (auto simp: extract_product_info_def split: sum.splits)
  have i1: "map_of i1 ''found'' = Some (JBool True)" "map_of i1 ''searchTerm'' = Some (JStr t)"
    using a by (auto simp: category_block_def image_block_def initial_info_def map_of_dset
        split: json.splits sum.splits)
  have i2: "map_of i2 ''found'' = map_of i1 ''found''" "map_of i2 ''searchTerm'' = map_of i1 ''searchTerm''"
    using price_block_frame [OF b] by simp_all
  show "map_of d ''found'' = Some (JBool True)" and "map_of d ''searchTerm'' = Some (JStr t)"
    using i1 i2 by (auto simp: c offers_block_def Let_def map_of_dset split: json.splits)
qed

lemma extract_product_info_nonempty: "extract_product_info p t = Inr d \<Longrightarrow> d \<noteq> []"
  using extract_product_info_found_term(1) [of p t d] by auto

lemma process_term_try_shape:
  assumes "process_term_try raw t lmt art = Inr (r, n)"
  shows "case r of One d \<Rightarrow> d \<noteq> [] | Many ps \<Rightarrow> ps \<noteq> [] \<and> \<not> art"
  using assms
  by (auto simp: process_term_try_def Let_def not_found_record_def too_complex_record_def
      dest: extract_all_length extract_product_info_nonempty
      split: option.splits if_splits sum.splits list.splits py_error.splits term_result.splits)

lemma process_term_shape:
  "case fst (process_term fetch t lmt art) of One d \<Rightarrow> d \<noteq> [] | Many ps \<Rightarrow> ps \<noteq> [] \<and> \<not> art"
proof (cases "process_term_try (fetch t) t lmt art")
  case (Inl e)
  then show ?thesis
    by (cases e) (simp_all add: process_term_def processing_error_record_def error_record_def)
next
  case (Inr rn)
  obtain r n where "rn = (r, n)" by (cases rn)
  with Inr process_term_try_shape [of "fetch t" t lmt art r n] show ?thesis
    by (simp add: process_term_def)
qed

lemma records_of_process_term:
  "records_of (t, Inr (process_term fetch t lmt art)) \<noteq> []"
  "art \<Longrightarrow> length (records_of (t, Inr (process_term fetch t lmt art))) = 1"
  using process_term_shape [where fetch = fetch and t = t and lmt = lmt and art = art]
  by (auto simp: records_of_def split: prod.splits term_result.splits)

lemma length_concat_ge:
  "(\<And>x. x \<in> set xs \<Longrightarrow> f x \<noteq> []) \<Longrightarrow> length xs \<le> length (concat (map f xs))"
proof (induction xs)
  case Nil
  then show ?case by simp
next
  case (Cons x xs)
  then have "f x \<noteq> []" and "length xs \<le> length (concat (map f xs))" by auto
  then show ?case by (cases "f x") auto
qed

lemma length_concat_eq:
  "(\<And>x. x \<in> set xs \<Longrightarrow> length (f x) = 1) \<Longrightarrow> length (concat (map f xs)) = length xs"
  by (induction xs) auto

lemma extract_product_info_term:
  "extract_product_info p t = Inr d \<Longrightarrow> dget d ''searchTerm'' = JStr t"
  using extract_product_info_found_term(2) [of p t d] by (simp add: dget_def)

lemma placeholder_term:
  "dget (not_found_record t) ''searchTerm'' = JStr t"
  "dget (processing_error_record t) ''searchTerm'' = JStr t"
  "dget (error_record t) ''searchTerm'' = JStr t"
  "dget (too_complex_record p t) ''searchTerm'' = JStr t"
  by (simp_all add: dget_def not_found_record_def processing_error_record_def error_record_def
      too_complex_record_def)

lemma extract_all_term:
  "extract_all ps t = Inr qs \<Longrightarrow> d \<in> set qs \<Longrightarrow> dget d ''searchTerm'' = JStr t"
proof (induction ps arbitrary: qs)
  case Nil
  then show ?case by simp
next
  case (Cons p ps)
  then show ?case
    by (auto split: sum.splits dest: extract_product_info_term)
qed

lemma process_term_try_term:
  assumes "process_term_try raw t lmt art = Inr (r, n)"
  shows "case r of One d \<Rightarrow> dget d ''searchTerm'' = JStr t
         | Many ps \<Rightarrow> (\<forall>d\<in>set ps. dget d ''searchTerm'' = JStr t)"
  using assms
  by (auto simp: process_term_try_def Let_def placeholder_term
      dest: extract_all_term extract_product_info_term
      split: option.splits if_splits sum.splits list.splits py_error.splits term_result.splits)

lemma records_of_process_term_term:
  assumes "d \<in> set (records_of (t, Inr (process_term fetch t lmt art)))"
  shows "dget d ''searchTerm'' = JStr t"
proof (cases "process_term_try (fetch t) t lmt art")
  case (Inl e)
  with assms show ?thesis
    by (cases e) (auto simp: process_term_def records_of_def placeholder_term split: if_splits)
next
  case (Inr rn)
  obtain r n where rn: "rn = (r, n)" by (cases rn)
  with Inr process_term_try_term [of "fetch t" t lmt art r n] assms show ?thesis
    by (auto simp: process_term_def records_of_def split: term_result.splits if_splits)
qed

lemma set_concat_terms:
  assumes "\<And>t d. d \<in> set (f t) \<Longrightarrow> g d = h t" and "\<And>t. f t \<noteq> []"
  shows "g ` set (concat (map f ts)) = h ` set ts"
proof -
  have "\<And>t. g ` set (f t) = {h t}"
  proof -
    fix t
    from assms(2) obtain d where "d \<in> set (f t)" by (cases "f t") auto
    with assms(1) show "g ` set (f t) = {h t}" by auto
  qed
  then show ?thesis by (auto simp: image_UN)
qed

lemma chunk_products_of_eq:
  "chunk_products_of as_completed fetch req =
     (concat (map (\<lambda>t. records_of (t, Inr (process_term fetch t (limit req) (searchType req = ''article''))))
                (as_completed (searchTerms req))),
      sum_list (map (\<lambda>t. snd (process_term fetch t (limit req) (searchType req = ''article'')))
                (as_completed (searchTerms req))),
      int (length (as_completed (searchTerms req))))"
  by (simp add: chunk_products_of_def collect_eq comp_def case_prod_unfold)


text \<open>
  C1, as the code has it.  For a chunk of \<open>N\<close> terms (\<open>N > 0\<close>, both identifiers present),
  whatever the order of completion, the fetch results, the limit and the search type:
  the response reports \<open>processed_count = N\<close>; the rows appended to the store are the
  batch, whose size the response reports as \<open>products_found\<close>; the batch holds at least
  \<open>N\<close> records, every submitted term occurs as the \<^verbatim>\<open>searchTerm\<close> of a record and every
  record carries a submitted term; and for an article search the batch holds exactly
  \<open>N\<close> records.
\<close>

theorem process_chunk_totality:
  assumes "sessionId req \<noteq> []" and "voilaSessionId req \<noteq> []" and "searchTerms req \<noteq> []"
    and "mset (as_completed (searchTerms req)) = mset (searchTerms req)"
  shows "\<exists>resp batch db'.
           process_chunk as_completed fetch req db = (Some resp, db')
         \<and> processed_count resp = int (length (searchTerms req))
         \<and> products db' = products db @ map (Pair (sessionId req)) batch
         \<and> products_found resp = int (length batch)
         \<and> length (searchTerms req) \<le> length batch
         \<and> (\<lambda>d. dget d ''searchTerm'') ` set batch = JStr ` set (searchTerms req)
         \<and> (searchType req = ''article'' \<longrightarrow> length batch = length (searchTerms req))"
proof -
  let ?done = "as_completed (searchTerms req)"
  let ?f = "\<lambda>t. records_of (t, Inr (process_term fetch t (limit req) (searchType req = ''article'')))"
  let ?batch = "concat (map ?f ?done)"
  have len: "length ?done = length (searchTerms req)"
    using assms(4) by (metis size_mset)
  have set: "set ?done = set (searchTerms req)"
    using assms(4) by (metis set_mset_mset)
  have ge: "length ?done \<le> length ?batch"
    by (rule length_concat_ge) (rule records_of_process_term(1))
  have eq: "searchType req = ''article'' \<Longrightarrow> length ?batch = length ?done"
    by (rule length_concat_eq) (simp add: records_of_process_term(2))
  have terms: "(\<lambda>d. dget d ''searchTerm'') ` set ?batch = JStr ` set ?done"
    by (rule set_concat_terms) (auto simp: records_of_process_term_term records_of_process_term(1))
  have ne: "?batch \<noteq> []"
  proof
    assume "?batch = []"
    then have "length ?batch = 0" by simp
    with ge len assms(3) show False by simp
  qed
  have "process_chunk as_completed fetch req db =
          (Some \<lparr>chunk_index = chunkIndex req, processed_count = int (length ?done),
                  products_found = int (length ?batch),
                  total_found = sum_list (map (\<lambda>t. snd (process_term fetch t (limit req) (searchType req = ''article''))) ?done)\<rparr>,
           snd (process_chunk as_completed fetch req db))"
    using assms(1-3) by (simp add: process_chunk_def chunk_products_of_eq Let_def)
  moreover have "products (snd (process_chunk as_completed fetch req db))
                   = products db @ map (Pair (sessionId req)) ?batch"
    using assms(1-3) ne
    by (simp add: process_chunk_def chunk_products_of_eq store_products_batch_def
        update_session_progress_def Let_def split: option.splits)
  ultimately show ?thesis
    using len ge eq terms set by (intro exI [of _ "\<lparr>chunk_index = chunkIndex req, processed_count = int (length ?done),
                  products_found = int (length ?batch),
                  total_found = sum_list (map (\<lambda>t. snd (process_term fetch t (limit req) (searchType req = ''article''))) ?done)\<rparr>"] exI [of _ ?batch] exI [of _ "snd (process_chunk as_completed fetch req db)"]) simp
qed

lemmas chunk_eval =
  process_chunk_def chunk_products_of_def process_term_def process_term_try_def select_keys_def
  slice_to_def example_fetch_def example_db_def example_request_def store_products_batch_def
  select_progress_def update_session_progress_def Let_def

theorem process_chunk_totality_witness:
  "sessionId (example_request [''milk'', ''tea''] (JStr ''all'') ''article'') \<noteq> []
   \<and> voilaSessionId (example_request [''milk'', ''tea''] (JStr ''all'') ''article'') \<noteq> []
   \<and> searchTerms (example_request [''milk'', ''tea''] (JStr ''all'') ''article'') \<noteq> []
   \<and> mset (rev (searchTerms (example_request [''milk'', ''tea''] (JStr ''all'') ''article'')))
       = mset (searchTerms (example_request [''milk'', ''tea''] (JStr ''all'') ''article''))
   \<and> searchType (example_request [''milk'', ''tea''] (JStr ''all'') ''article'') = ''article''
   \<and> (\<exists>resp batch db'.
           process_chunk rev example_fetch (example_request [''milk'', ''tea''] (JStr ''all'') ''article'') example_db
             = (Some resp, db')
         \<and> processed_count resp = 2
         \<and> products db' = products example_db @ map (Pair ''s1'') batch
         \<and> products_found resp = int (length batch)
         \<and> length batch = 2)"
proof -
  let ?req = "example_request [''milk'', ''tea''] (JStr ''all'') ''article''"
  have a: "sessionId ?req \<noteq> []" and b: "voilaSessionId ?req \<noteq> []" and c: "searchTerms ?req \<noteq> []"
    and d: "mset (rev (searchTerms ?req)) = mset (searchTerms ?req)"
    and e: "searchType ?req = ''article''"
    by (simp_all add: example_request_def)
  have "\<exists>resp batch db'.
           process_chunk rev example_fetch ?req example_db = (Some resp, db')
         \<and> processed_count resp = int (length (searchTerms ?req))
         \<and> products db' = products example_db @ map (Pair (sessionId ?req)) batch
         \<and> products_found resp = int (length batch)
         \<and> length (searchTerms ?req) \<le> length batch
         \<and> (\<lambda>d. dget d ''searchTerm'') ` set batch = JStr ` set (searchTerms ?req)
         \<and> (searchType ?req = ''article'' \<longrightarrow> length batch = length (searchTerms ?req))"
    using a b c d
    by (rule process_chunk_totality [where req = ?req and as_completed = rev
          and fetch = example_fetch and db = example_db])
  then obtain resp batch db' where
    "process_chunk rev example_fetch ?req example_db = (Some resp, db')"
    "processed_count resp = int (length (searchTerms ?req))"
    "products db' = products example_db @ map (Pair (sessionId ?req)) batch"
    "products_found resp = int (length batch)"
    "searchType ?req = ''article'' \<longrightarrow> length batch = length (searchTerms ?req)"
    by blast
  then have "process_chunk rev example_fetch ?req example_db = (Some resp, db')
         \<and> processed_count resp = 2
         \<and> products db' = products example_db @ map (Pair ''s1'') batch
         \<and> products_found resp = int (length batch)
         \<and> length batch = 2"
    using e by (simp add: example_request_def)
  then have "\<exists>resp batch db'.
           process_chunk rev example_fetch ?req example_db = (Some resp, db')
         \<and> processed_count resp = 2
         \<and> products db' = products example_db @ map (Pair ''s1'') batch
         \<and> products_found resp = int (length batch)
         \<and> length batch = 2"
    by blast
  with a b c d e show ?thesis by blast
qed

text \<open>
  C1, as stated, promises exactly \<open>N\<close> records in both search modes.  A chunk of one
  term in a non-article search, for which the fetcher finds two products, persists two
  records.
\<close>

theorem process_chunk_two_records_counterexample:
  "length (searchTerms (example_request [''milk''] (JStr ''all'') ''text'')) = 1
   \<and> map_option products_found
        (fst (process_chunk (\<lambda>xs. xs) example_fetch (example_request [''milk''] (JStr ''all'') ''text'') example_db))
       = Some 2
   \<and> length (products
        (snd (process_chunk (\<lambda>xs. xs) example_fetch (example_request [''milk''] (JStr ''all'') ''text'') example_db)))
       = 2"
  by (simp add: chunk_eval normalizer_eval)

section \<open>Properties of the result shaping\<close>

lemma int_of_string_all: "int_of_string ''all'' = None"
  by (simp add: int_of_string_def strip_num_def is_num_space_def code_point_def is_digit_def
      parse_exponent_def split_sign_def)

lemma select_keys_caps:
  "length (select_keys lmt True ks) \<le> 1"
  "0 \<le> n \<Longrightarrow> length (select_keys (JInt n) False ks) \<le> nat n"
  "int_of_string s = Some n \<Longrightarrow> 0 \<le> n \<Longrightarrow> length (select_keys (JStr s) False ks) \<le> nat n"
  "length (select_keys (JStr ''all'') False ks) \<le> 50"
  "int_of_string s = None \<Longrightarrow> s \<noteq> ''all'' \<Longrightarrow> length (select_keys (JStr s) False ks) \<le> 10"
  "length (select_keys (JFloat x) False ks) \<le> 10"
  "length (select_keys (JList js) False ks) \<le> 10"
  "length (select_keys (JObj kvs) False ks) \<le> 10"
  using int_of_string_all by (auto simp: select_keys_def slice_to_def)

lemma select_keys_null: "select_keys JNull False ks = ks"
  by (simp add: select_keys_def)

lemma py_float_errors: "py_float x = Inl e \<Longrightarrow> e = TypeError \<or> e = ValueError \<or> e = OverflowError"
  by (cases x) (auto split: pyfloat.splits option.splits)

lemma f_div_errors: "f_div x y = Inl e \<Longrightarrow> e = ZeroDivisionError"
  by (cases "(x, y)" rule: f_div.cases) (auto split: if_splits pyfloat.splits)

lemma py_round_errors: "py_round x = Inl e \<Longrightarrow> e = ValueError \<or> e = OverflowError"
  by (cases x) auto

lemma discount_try_errors:
  "discount_try info = Inl e \<Longrightarrow> e = TypeError \<or> e = ValueError \<or> e = OverflowError \<or> e = ZeroDivisionError"
  by (auto simp: discount_try_def split: sum.splits if_splits
      dest: py_float_errors f_div_errors py_round_errors)

lemma discount_step_errors:
  "discount_step info = Inl e \<Longrightarrow> e = OverflowError \<or> e = ZeroDivisionError"
  by (auto simp: discount_step_def split: if_splits sum.splits py_error.splits dest: discount_try_errors)

lemma extract_product_info_errors:
  "extract_product_info p t = Inl e \<Longrightarrow> e = TypeError \<or> e = OverflowError \<or> e = ZeroDivisionError"
  by (auto simp: extract_product_info_def category_block_def py_join_def price_block_def
      price_original_def split: sum.splits json.splits option.splits dest: discount_step_errors)

lemma placeholder_found:
  "dget (not_found_record t) ''found'' = JBool False"
  "dget (processing_error_record t) ''found'' = JBool False"
  "dget (error_record t) ''found'' = JBool False"
  by (simp_all add: dget_def not_found_record_def processing_error_record_def error_record_def)

lemma extract_product_info_found:
  "extract_product_info p t = Inr d \<Longrightarrow> dget d ''found'' = JBool True"
  using extract_product_info_found_term(1) [of p t d] by (simp add: dget_def)

lemma extract_all_found:
  "extract_all ps t = Inr qs \<Longrightarrow> filter (\<lambda>d. dget d ''found'' = JBool True) qs = qs"
proof (induction ps arbitrary: qs)
  case Nil
  then show ?case by simp
next
  case (Cons p ps)
  then show ?case
    by (auto split: sum.splits dest: extract_product_info_found)
qed

lemma extract_all_found_length:
  "extract_all ps t = Inr qs \<Longrightarrow> length (filter (\<lambda>d. dget d ''found'' = JBool True) qs) = length ps"
  using extract_all_found [of ps t qs] extract_all_length [of ps t qs] by simp

lemma process_term_try_caps:
  assumes "process_term_try raw t lmt art = Inr (r, n)"
  shows "case raw of
           None \<Rightarrow> found_records r = []
         | Some m \<Rightarrow> length (found_records r) \<le> length (select_keys lmt art (map snd m))
                     \<and> (found_records r \<noteq> [] \<longrightarrow> n = int (length m))"
  using assms
  by (auto simp: process_term_try_def Let_def found_records_def placeholder_found
      dest: extract_all_found_length extract_all_found extract_product_info_found
            extract_product_info_errors
      split: option.splits if_splits sum.splits list.splits py_error.splits)

text \<open>
  The part of C6 that holds: the product records (\<open>found\<close> true) that \<^verbatim>\<open>process_term\<close>
  returns for a term are at most as many as \<open>select_keys\<close> keeps of the products the
  fetcher found (bounded as \<open>select_keys_caps\<close> says), and whenever a product record is
  returned, the reported total is the number of products the fetcher found.
\<close>

lemma process_term_caps:
  "case fetch t of
     None \<Rightarrow> found_records (fst (process_term fetch t lmt art)) = []
   | Some m \<Rightarrow> length (found_records (fst (process_term fetch t lmt art)))
                 \<le> length (select_keys lmt art (map snd m))
               \<and> (found_records (fst (process_term fetch t lmt art)) \<noteq> []
                    \<longrightarrow> snd (process_term fetch t lmt art) = int (length m))"
proof (cases "process_term_try (fetch t) t lmt art")
  case (Inl e)
  then show ?thesis
    by (cases e) (auto simp: process_term_def found_records_def placeholder_found split: option.splits)
next
  case (Inr rn)
  obtain r n where "rn = (r, n)" by (cases rn)
  with Inr process_term_try_caps [of "fetch t" t lmt art r n] show ?thesis
    by (auto simp: process_term_def split: option.splits)
qed

text \<open>
  C6: a limit that is no number and not \<^verbatim>\<open>all\<close> is to cap the result at 10.  The JSON
  value \<^verbatim>\<open>null\<close> for \<^verbatim>\<open>limit\<close> reaches the slice as \<^verbatim>\<open>None\<close>, raises nothing, and all
  eleven products found are returned.  (Second conjunct: with the limit 0 the term is
  answered by the not-found placeholder and a total of 0, although two products were
  found.)
\<close>

theorem process_term_null_limit_uncapped:
  "length (found_records (fst (process_term (\<lambda>t. Some eleven_products) ''milk'' JNull False))) = 11
   \<and> process_term example_fetch ''milk'' (JInt 0) False = (One (not_found_record ''milk''), 0)
   \<and> example_fetch ''milk'' = Some [(JStr ''p1'', [(''productId'', JStr ''p1'')]),
                                     (JStr ''p2'', [(''productId'', JStr ''p2'')])]"
  by (simp add: process_term_def process_term_try_def select_keys_def slice_to_def Let_def
      example_fetch_def eleven_products_def found_records_def normalizer_eval)

end
